theory Spec2Isabelle
  imports Main "HOL-Library.Word"
begin

section \<open>Strings of the source language\<close>

text \<open>
  The assembler (\<^verbatim>\<open>src/cpu/src/assembler.ts\<close>) works on JavaScript strings: sequences of
  16-bit code units. Its regular expressions carry no \<^verbatim>\<open>u\<close> flag, so they read the
  string one code unit at a time. A string is therefore a list of 16-bit words; \<open>js\<close>
  writes an ASCII literal as such a list.
\<close>

type_synonym jschar = "16 word"
type_synonym jsstring = "jschar list"

definition js :: "string \<Rightarrow> jsstring" where
  "js s = map (\<lambda>c. of_nat (of_char c)) s"

text \<open>The line feed, \<^verbatim>\<open>'\n'\<close>.\<close>

definition LF :: jschar where
  "LF = 0x0A"

text \<open>
  ECMAScript's LineTerminator code units: what \<^verbatim>\<open>.\<close> refuses to match and where
  \<^verbatim>\<open>$\<close> under the \<^verbatim>\<open>m\<close> flag stops.
\<close>

definition isLineTerminator :: "jschar \<Rightarrow> bool" where
  "isLineTerminator c = (c = 0x0A \<or> c = 0x0D \<or> c = 0x2028 \<or> c = 0x2029)"

text \<open>
  The class \<^verbatim>\<open>\s\<close>, which is also what \<^verbatim>\<open>String.prototype.trim\<close> removes:
  WhiteSpace together with LineTerminator.
\<close>

definition isSpace :: "jschar \<Rightarrow> bool" where
  "isSpace c =
     (c = 0x09 \<or> c = 0x0A \<or> c = 0x0B \<or> c = 0x0C \<or> c = 0x0D \<or> c = 0x20 \<or> c = 0xA0
      \<or> c = 0x1680 \<or> (0x2000 \<le> c \<and> c \<le> 0x200A) \<or> c = 0x2028 \<or> c = 0x2029
      \<or> c = 0x202F \<or> c = 0x205F \<or> c = 0x3000 \<or> c = 0xFEFF)"

text \<open>\<^verbatim>\<open>s.trim()\<close>\<close>

definition trim :: "jsstring \<Rightarrow> jsstring" where
  "trim s = rev (dropWhile isSpace (rev (dropWhile isSpace s)))"

section \<open>The comment stripper\<close>

text \<open>
  \<^verbatim>\<open>doc.replace(/#.*$/gm, '')\<close>. The search runs left to right. At a \<^verbatim>\<open>#\<close> the greedy
  \<^verbatim>\<open>.*\<close> takes every code unit up to the next line terminator or the end of the input,
  which is exactly where the multi-line \<^verbatim>\<open>$\<close> holds, so no backtracking happens; the match
  is replaced by the empty string and the search goes on behind it.
\<close>

function stripComments :: "jsstring \<Rightarrow> jsstring" where
  "stripComments [] = []"
| "stripComments (c # cs) =
     (if c = 0x23 then stripComments (dropWhile (\<lambda>x. \<not> isLineTerminator x) cs)
      else c # stripComments cs)"
  by pat_completeness auto
termination
  by (relation "measure length") (auto intro: le_imp_less_Suc length_dropWhile_le)

section \<open>Regular expressions\<close>

text \<open>
  The regular expressions of the source use classes, sequence, alternative and greedy
  repetition only (no back-references, no look-around). \<open>rx\<close> is their syntax; a class is a
  predicate on code units.
\<close>

datatype rx =
    Zero
  | Eps
  | Sym "jschar \<Rightarrow> bool"
  | Seq rx rx
  | Alt rx rx
  | Star rx

text \<open>\<^verbatim>\<open>r?\<close>, \<^verbatim>\<open>r+\<close> and \<^verbatim>\<open>r{0,2}\<close>\<close>

definition Opt :: "rx \<Rightarrow> rx" where
  "Opt r = Alt r Eps"

definition Plus :: "rx \<Rightarrow> rx" where
  "Plus r = Seq r (Star r)"

definition UpTo2 :: "rx \<Rightarrow> rx" where
  "UpTo2 r = Opt (Seq r (Opt r))"

text \<open>A single code unit.\<close>

definition Chr :: "jschar \<Rightarrow> rx" where
  "Chr a = Sym (\<lambda>c. c = a)"

text \<open>The classes \<^verbatim>\<open>[A-Z_]\<close>, \<^verbatim>\<open>[a-z]\<close>, \<^verbatim>\<open>[0-9a-f]\<close>, \<^verbatim>\<open>.\<close> and \<^verbatim>\<open>\s\<close>.\<close>

definition isUpper :: "jschar \<Rightarrow> bool" where
  "isUpper c = ((0x41 \<le> c \<and> c \<le> 0x5A) \<or> c = 0x5F)"

definition isLower :: "jschar \<Rightarrow> bool" where
  "isLower c = (0x61 \<le> c \<and> c \<le> 0x7A)"

definition isHex :: "jschar \<Rightarrow> bool" where
  "isHex c = ((0x30 \<le> c \<and> c \<le> 0x39) \<or> (0x61 \<le> c \<and> c \<le> 0x66))"

definition isDot :: "jschar \<Rightarrow> bool" where
  "isDot c = (\<not> isLineTerminator c)"

text \<open>
  Whether a whole string matches an expression, by derivatives: \<open>deriv c r\<close> matches what
  is left of a match of \<open>r\<close> after its first code unit \<open>c\<close>, and \<open>nullable r\<close> says that
  \<open>r\<close> matches the empty string. A backtracking matcher finds a match of \<^verbatim>\<open>/^r$/\<close>
  (without the \<^verbatim>\<open>m\<close> flag) exactly when the whole string is in the language of
  \<open>r\<close>, so \<open>matches r s\<close> is \<^verbatim>\<open>s.match(/^r$/) !== null\<close>.
\<close>

fun nullable :: "rx \<Rightarrow> bool" where
  "nullable Zero = False"
| "nullable Eps = True"
| "nullable (Sym p) = False"
| "nullable (Seq r s) = (nullable r \<and> nullable s)"
| "nullable (Alt r s) = (nullable r \<or> nullable s)"
| "nullable (Star r) = True"

fun deriv :: "jschar \<Rightarrow> rx \<Rightarrow> rx" where
  "deriv c Zero = Zero"
| "deriv c Eps = Zero"
| "deriv c (Sym p) = (if p c then Eps else Zero)"
| "deriv c (Seq r s) =
     (if nullable r then Alt (Seq (deriv c r) s) (deriv c s) else Seq (deriv c r) s)"
| "deriv c (Alt r s) = Alt (deriv c r) (deriv c s)"
| "deriv c (Star r) = Seq (deriv c r) (Star r)"

fun matches :: "rx \<Rightarrow> jsstring \<Rightarrow> bool" where
  "matches r [] = nullable r"
| "matches r (c # cs) = matches (deriv c r) cs"

text \<open>The language of an expression, to reason about \<open>matches\<close>.\<close>

inductive_set star :: "jsstring set \<Rightarrow> jsstring set" for L :: "jsstring set" where
  star_nil: "[] \<in> star L"
| star_app: "u \<in> L \<Longrightarrow> v \<in> star L \<Longrightarrow> u @ v \<in> star L"

fun lang :: "rx \<Rightarrow> jsstring set" where
  "lang Zero = {}"
| "lang Eps = {[]}"
| "lang (Sym p) = {[c] | c. p c}"
| "lang (Seq r s) = {u @ v | u v. u \<in> lang r \<and> v \<in> lang s}"
| "lang (Alt r s) = lang r \<union> lang s"
| "lang (Star r) = star (lang r)"

section \<open>The grammar validator\<close>

text \<open>
  The tail every line of sections 2 and 3 may have: \<^verbatim>\<open>\s*(#.*)?\<close>.
\<close>

definition commentTail :: rx where
  "commentTail = Seq (Star (Sym isSpace)) (Opt (Seq (Chr 0x23) (Star (Sym isDot))))"

text \<open>\<^verbatim>\<open>/^(\s*[A-Z_]+ +0[0-9a-f]\s*)?\s*(#.*)?$/\<close>\<close>

definition symdefLine :: rx where
  "symdefLine =
     Seq (Opt (Seq (Star (Sym isSpace))
              (Seq (Plus (Sym isUpper))
              (Seq (Plus (Chr 0x20))
              (Seq (Chr 0x30)
              (Seq (Sym isHex)
                   (Star (Sym isSpace))))))))
         commentTail"

text \<open>\<^verbatim>\<open>/^(\s*([A-Z_]+:)?\s*[a-z]+( +([A-Z_]+|[0-9a-f]+)){0,2}\s*)?\s*(#.*)?$/\<close>\<close>

definition codeLine :: rx where
  "codeLine =
     Seq (Opt (Seq (Star (Sym isSpace))
              (Seq (Opt (Seq (Plus (Sym isUpper)) (Chr 0x3A)))
              (Seq (Star (Sym isSpace))
              (Seq (Plus (Sym isLower))
              (Seq (UpTo2 (Seq (Plus (Chr 0x20))
                               (Alt (Plus (Sym isUpper)) (Plus (Sym isHex)))))
                   (Star (Sym isSpace))))))))
         commentTail"

text \<open>The separator \<^verbatim>\<open>/ *---+ */\<close> of \<^verbatim>\<open>doc.split\<close>.\<close>

definition separator :: rx where
  "separator =
     Seq (Star (Chr 0x20))
    (Seq (Chr 0x2D) (Seq (Chr 0x2D) (Seq (Plus (Chr 0x2D)) (Star (Chr 0x20)))))"

text \<open>
  \<^verbatim>\<open>doc.split(/ *---+ */)\<close>. \<open>matchSep s\<close> is the match of the separator expression
  anchored at the start of \<open>s\<close>, as what is left of \<open>s\<close> behind the match, or \<open>None\<close>. The
  first \<^verbatim>\<open> *\<close> takes the whole run of spaces (giving one back would put a space
  where a hyphen must follow), \<^verbatim>\<open>---+\<close> needs three hyphens and takes the whole run of
  them, and the last \<^verbatim>\<open> *\<close> takes the spaces behind.
\<close>

definition matchSep :: "jsstring \<Rightarrow> jsstring option" where
  "matchSep s =
     (let s1 = dropWhile (\<lambda>c. c = 0x20) s;
          s2 = dropWhile (\<lambda>c. c = 0x2D) s1
      in if 3 \<le> length (takeWhile (\<lambda>c. c = 0x2D) s1)
         then Some (dropWhile (\<lambda>c. c = 0x20) s2) else None)"

text \<open>
  The loop of \<^verbatim>\<open>split\<close>: \<open>cur\<close> is the piece since the last separator. At each position
  the separator is tried; where it matches, the piece is closed and the scan goes on behind
  the match, otherwise the code unit joins the piece. The piece open at the end of the
  string is the last one, so the result is never empty. The separator never matches the
  empty string, so the empty document gives the one piece \<^verbatim>\<open>""\<close>.
\<close>

function splitLoop :: "jsstring \<Rightarrow> jsstring \<Rightarrow> jsstring list" where
  "splitLoop cur [] = [cur]"
| "splitLoop cur (c # cs) =
     (case matchSep (c # cs) of
        Some rest \<Rightarrow> cur # splitLoop [] rest
      | None \<Rightarrow> splitLoop (cur @ [c]) cs)"
  by pat_completeness auto
termination
proof (relation "measure (\<lambda>(cur, s). length s)")
  fix cur :: jsstring and c :: jschar and cs rest :: jsstring
  assume m: "matchSep (c # cs) = Some rest"
  let ?s1 = "dropWhile (\<lambda>x. x = 0x20) (c # cs)"
  from m have three: "3 \<le> length (takeWhile (\<lambda>x. x = 0x2D) ?s1)"
    and rest: "rest = dropWhile (\<lambda>x. x = 0x20) (dropWhile (\<lambda>x. x = 0x2D) ?s1)"
    by (auto simp: matchSep_def Let_def split: if_splits)
  have "length ?s1 = length (takeWhile (\<lambda>x. x = 0x2D) ?s1) + length (dropWhile (\<lambda>x. x = 0x2D) ?s1)"
    by (metis length_append takeWhile_dropWhile_id)
  with three have "length (dropWhile (\<lambda>x. x = 0x2D) ?s1) < length ?s1"
    by linarith
  moreover have "length rest \<le> length (dropWhile (\<lambda>x. x = 0x2D) ?s1)"
    unfolding rest by (rule length_dropWhile_le)
  moreover have "length ?s1 \<le> length (c # cs)"
    by (rule length_dropWhile_le)
  ultimately show "((([]::jsstring), rest), (cur, c # cs)) \<in> measure (\<lambda>(cur, s). length s)"
    by simp
qed simp_all

definition splitSep :: "jsstring \<Rightarrow> jsstring list" where
  "splitSep doc = splitLoop [] doc"

text \<open>\<^verbatim>\<open>s.split('\n')\<close>\<close>

fun splitLines :: "jsstring \<Rightarrow> jsstring \<Rightarrow> jsstring list" where
  "splitLines cur [] = [cur]"
| "splitLines cur (c # cs) =
     (if c = LF then cur # splitLines [] cs else splitLines (cur @ [c]) cs)"

definition splitNL :: "jsstring \<Rightarrow> jsstring list" where
  "splitNL s = splitLines [] s"

text \<open>
  \<^verbatim>\<open>isValid\<close>. \<^verbatim>\<open>&&\<close> evaluates \<^verbatim>\<open>sections[1]\<close> and \<^verbatim>\<open>sections[2]\<close> only when
  the split gave three pieces. Each line is matched (\<^verbatim>\<open>match(...) !== null\<close> is
  \<open>matches\<close>) and \<^verbatim>\<open>reduce\<close> folds the answers with \<^verbatim>\<open>&&\<close> from \<^verbatim>\<open>true\<close>. The result is
  a \<^verbatim>\<open>boolean\<close>.
\<close>

definition allLines :: "rx \<Rightarrow> jsstring \<Rightarrow> bool" where
  "allLines r section = foldl (\<lambda>a b. a \<and> b) True (map (\<lambda>line. matches r line) (splitNL section))"

definition isValid :: "jsstring \<Rightarrow> bool" where
  "isValid doc =
     (case splitSep doc of
        [s0, s1, s2] \<Rightarrow> allLines symdefLine s1 \<and> allLines codeLine s2
      | _ \<Rightarrow> False)"

section \<open>The section splitter\<close>

text \<open>
  Reading an index past the end of an array gives \<^verbatim>\<open>undefined\<close>, and calling
  \<^verbatim>\<open>trim\<close> on \<^verbatim>\<open>undefined\<close> throws a \<^verbatim>\<open>TypeError\<close>: the only exception the
  pipeline can raise.
\<close>

datatype error = TypeError

record sections =
  desc :: jsstring
  syms :: jsstring
  code :: jsstring

definition index :: "'a list \<Rightarrow> nat \<Rightarrow> 'a option" where
  "index xs i = (if i < length xs then Some (xs ! i) else None)"

definition trimOf :: "jsstring option \<Rightarrow> error + jsstring" where
  "trimOf v = (case v of None \<Rightarrow> Inl TypeError | Some s \<Rightarrow> Inr (trim s))"

definition splitSections :: "jsstring \<Rightarrow> error + sections" where
  "splitSections doc =
     (let parts = splitSep doc in
      case trimOf (index parts 0) of Inl e \<Rightarrow> Inl e | Inr d \<Rightarrow>
     (case trimOf (index parts 1) of Inl e \<Rightarrow> Inl e | Inr s \<Rightarrow>
     (case trimOf (index parts 2) of Inl e \<Rightarrow> Inl e | Inr c \<Rightarrow>
        Inr \<lparr>desc = d, syms = s, code = c\<rparr>)))"

section \<open>The instruction catalog\<close>

record instruction =
  byte :: jsstring
  op1 :: "jsstring option"
  op2 :: "jsstring option"

text \<open>
  \<^verbatim>\<open>instructionSet\<close>, without the \<^verbatim>\<open>desc\<close> texts, which nothing reads.
\<close>

definition instructionSet :: "(jsstring \<times> instruction) list" where
  "instructionSet =
     [(js ''setpc'', \<lparr>byte = js ''B1'', op1 = Some (js ''byte #''), op2 = None\<rparr>),
      (js ''jumpr'', \<lparr>byte = js ''B2'', op1 = Some (js ''Memory slot [00-0F]''), op2 = Some (js ''byte #'')\<rparr>),
      (js ''jumpv'', \<lparr>byte = js ''B3'', op1 = Some (js ''Value''), op2 = Some (js ''byte #'')\<rparr>),
      (js ''accr'', \<lparr>byte = js ''C0'', op1 = Some (js ''Memory slot [00-0F]''), op2 = None\<rparr>),
      (js ''accv'', \<lparr>byte = js ''C1'', op1 = Some (js ''Value to add to accumulator''), op2 = None\<rparr>),
      (js ''inc'', \<lparr>byte = js ''C2'', op1 = None, op2 = None\<rparr>),
      (js ''dec'', \<lparr>byte = js ''C3'', op1 = None, op2 = None\<rparr>),
      (js ''res'', \<lparr>byte = js ''C4'', op1 = None, op2 = None\<rparr>),
      (js ''ctoa'', \<lparr>byte = js ''C5'', op1 = None, op2 = None\<rparr>),
      (js ''atoc'', \<lparr>byte = js ''C6'', op1 = None, op2 = None\<rparr>),
      (js ''rtoa'', \<lparr>byte = js ''D0'', op1 = Some (js ''Memory slot [00-0F]''), op2 = None\<rparr>),
      (js ''vtoa'', \<lparr>byte = js ''D1'', op1 = Some (js ''Value''), op2 = None\<rparr>),
      (js ''ator'', \<lparr>byte = js ''D2'', op1 = Some (js ''Memory slot [00-0F]''), op2 = None\<rparr>),
      (js ''halt'', \<lparr>byte = js ''00'', op1 = None, op2 = None\<rparr>)]"

text \<open>
  \<^verbatim>\<open>instrumap\<close>: the \<^verbatim>\<open>reduce\<close> over the keys, which stores each mnemonic's byte.
\<close>

definition instrumap :: "jsstring \<rightharpoonup> jsstring" where
  "instrumap = foldl (\<lambda>acc (key, ins). acc(key \<mapsto> byte ins)) Map.empty instructionSet"

section \<open>Tables, substitution and the entry point\<close>

text \<open>
  \<^verbatim>\<open>buildSymMap\<close> and \<^verbatim>\<open>buildLabelMap\<close> return the empty object whatever the section
  holds; \<^verbatim>\<open>substitute\<close> and \<^verbatim>\<open>stripLabels\<close> return the code they are given.
\<close>

definition buildSymMap :: "jsstring \<Rightarrow> (jsstring \<rightharpoonup> jsstring)" where
  "buildSymMap s = Map.empty"

definition buildLabelMap :: "jsstring \<Rightarrow> (jsstring \<rightharpoonup> jsstring)" where
  "buildLabelMap c = Map.empty"

definition substitute :: "jsstring \<Rightarrow> (jsstring \<rightharpoonup> jsstring) \<Rightarrow> jsstring" where
  "substitute c m = c"

definition stripLabels :: "jsstring \<Rightarrow> jsstring" where
  "stripLabels c = c"

text \<open>The text \<^verbatim>\<open>assemble\<close> returns for a document that \<^verbatim>\<open>isValid\<close> refuses.\<close>

definition notExecutable :: jsstring where
  "notExecutable = js ''I'm not executable''"

text \<open>
  \<^verbatim>\<open>assemble\<close>. Its result is \<open>Inr\<close> the returned string, or \<open>Inl\<close> the exception that
  leaves the function.
\<close>

definition assemble :: "jsstring \<Rightarrow> error + jsstring" where
  "assemble doc =
     (if isValid doc then
        (let work = stripComments doc in
         case splitSections work of
           Inl e \<Rightarrow> Inl e
         | Inr sections \<Rightarrow>
             (let symmap = buildSymMap (syms sections);
                  labelmap = buildLabelMap (code sections);
                  work = code sections;
                  work = substitute work symmap;
                  work = substitute work labelmap;
                  work = substitute work instrumap;
                  work = stripLabels work
              in Inr work))
      else Inr notExecutable)"

section \<open>Calls in one process\<close>

text \<open>
  What a call of \<^verbatim>\<open>assemble\<close> finds and leaves behind is the state of the module: the
  objects that the constants \<^verbatim>\<open>instructionSet\<close> and \<^verbatim>\<open>instrumap\<close> refer to. Nothing else
  lives from one call to the next: each regular expression literal gives a new object
  whenever it is evaluated, and \<^verbatim>\<open>replace\<close> starts its global expression at index 0.
  \<open>loaded\<close> is the state once the module has been loaded.
\<close>

record module_state =
  instructionSet_obj :: "(jsstring \<times> instruction) list"
  instrumap_obj :: "jsstring \<rightharpoonup> jsstring"

definition loaded :: module_state where
  "loaded = \<lparr>instructionSet_obj = instructionSet, instrumap_obj = instrumap\<rparr>"

text \<open>
  \<^verbatim>\<open>assemble\<close> as a call in a state: it reads \<^verbatim>\<open>instrumap\<close> from the state it finds and
  returns its outcome together with the state it leaves.
\<close>

definition assemble_call ::
  "jsstring \<Rightarrow> module_state \<Rightarrow> (error + jsstring) \<times> module_state" where
  "assemble_call doc m =
     (if isValid doc then
        (let work = stripComments doc in
         case splitSections work of
           Inl e \<Rightarrow> (Inl e, m)
         | Inr sections \<Rightarrow>
             (let symmap = buildSymMap (syms sections);
                  labelmap = buildLabelMap (code sections);
                  work = code sections;
                  work = substitute work symmap;
                  work = substitute work labelmap;
                  work = substitute work (instrumap_obj m);
                  work = stripLabels work
              in (Inr work, m)))
      else (Inr notExecutable, m))"

section \<open>What the documentation of the source promises\<close>

text \<open>
  The comment on \<^verbatim>\<open>assemble\<close> promises a "space delimited single line string of uppercase
  hex-encoded bytes": two upper-case hexadecimal digits for each byte, one space between
  two bytes, nothing behind the last byte.
\<close>

definition isUpperHexDigit :: "jschar \<Rightarrow> bool" where
  "isUpperHexDigit c = ((0x30 \<le> c \<and> c \<le> 0x39) \<or> (0x41 \<le> c \<and> c \<le> 0x46))"

fun isByteSequence :: "jsstring \<Rightarrow> bool" where
  "isByteSequence [a, b] = (isUpperHexDigit a \<and> isUpperHexDigit b)"
| "isByteSequence (a # b # c # rest) =
     (isUpperHexDigit a \<and> isUpperHexDigit b \<and> c = 0x20 \<and> isByteSequence rest)"
| "isByteSequence _ = False"

text \<open>
  The comment on \<^verbatim>\<open>isValid\<close> gives the separator as \<^verbatim>\<open>/^\s*---+\s*$/\<close>: a line of three
  or more hyphens with nothing but white space around them. \<open>separatorLines\<close> counts the
  lines of a document that are such a line.
\<close>

definition separatorLine :: rx where
  "separatorLine =
     Seq (Star (Sym isSpace))
    (Seq (Chr 0x2D) (Seq (Chr 0x2D) (Seq (Plus (Chr 0x2D)) (Star (Sym isSpace)))))"

definition separatorLines :: "jsstring \<Rightarrow> nat" where
  "separatorLines doc = length (filter (matches separatorLine) (splitNL doc))"

text \<open>
  The comment on \<^verbatim>\<open>stripLabels\<close> promises code without label markers. A label marker is
  \<^verbatim>\<open>[A-Z_]+:\<close>; a string holds one exactly when a code unit of \<^verbatim>\<open>[A-Z_]\<close> stands right
  before a colon.
\<close>

fun hasLabelMarker :: "jsstring \<Rightarrow> bool" where
  "hasLabelMarker (a # b # cs) = ((isUpper a \<and> b = 0x3A) \<or> hasLabelMarker (b # cs))"
| "hasLabelMarker _ = False"

section \<open>Evaluation\<close>

text \<open>The definitions a concrete document is evaluated with.\<close>

lemmas eval_defs =
  js_def LF_def isLineTerminator_def isSpace_def trim_def
  Opt_def Plus_def UpTo2_def Chr_def isUpper_def isLower_def isHex_def isDot_def
  commentTail_def symdefLine_def codeLine_def matchSep_def splitSep_def splitNL_def
  allLines_def isValid_def index_def trimOf_def splitSections_def
  buildSymMap_def buildLabelMap_def substitute_def stripLabels_def notExecutable_def
  assemble_def

section \<open>The matcher decides the language\<close>

lemma nullable_lang: "nullable r \<longleftrightarrow> [] \<in> lang r"
  by (induction r) (auto intro: star.star_nil)

lemma star_cons:
  "c # w \<in> star L \<longleftrightarrow> (\<exists>u v. w = u @ v \<and> c # u \<in> L \<and> v \<in> star L)"
proof
  assume "c # w \<in> star L"
  then show "\<exists>u v. w = u @ v \<and> c # u \<in> L \<and> v \<in> star L"
  proof (induction "c # w" rule: star.induct)
    case (star_app u v)
    show ?case
    proof (cases u)
      case Nil
      with star_app show ?thesis by simp
    next
      case (Cons a u')
      with star_app show ?thesis by auto
    qed
  qed
next
  assume "\<exists>u v. w = u @ v \<and> c # u \<in> L \<and> v \<in> star L"
  then obtain u v where "w = u @ v" "c # u \<in> L" "v \<in> star L" by blast
  then show "c # w \<in> star L"
    using star.star_app [of "c # u" L v] by simp
qed

lemma lang_Seq_cons:
  "c # w \<in> lang (Seq r s) \<longleftrightarrow>
     ([] \<in> lang r \<and> c # w \<in> lang s) \<or> (\<exists>u v. w = u @ v \<and> c # u \<in> lang r \<and> v \<in> lang s)"
proof
  assume "c # w \<in> lang (Seq r s)"
  then obtain u v where uv: "c # w = u @ v" "u \<in> lang r" "v \<in> lang s" by auto
  show "([] \<in> lang r \<and> c # w \<in> lang s) \<or> (\<exists>u v. w = u @ v \<and> c # u \<in> lang r \<and> v \<in> lang s)"
  proof (cases u)
    case Nil
    with uv show ?thesis by simp
  next
    case (Cons a u')
    with uv have "a = c" "w = u' @ v" by simp_all
    with uv Cons show ?thesis by blast
  qed
next
  assume "([] \<in> lang r \<and> c # w \<in> lang s) \<or> (\<exists>u v. w = u @ v \<and> c # u \<in> lang r \<and> v \<in> lang s)"
  then show "c # w \<in> lang (Seq r s)"
  proof
    assume "[] \<in> lang r \<and> c # w \<in> lang s"
    then have "c # w = [] @ (c # w) \<and> [] \<in> lang r \<and> c # w \<in> lang s" by simp
    then show ?thesis unfolding lang.simps by blast
  next
    assume "\<exists>u v. w = u @ v \<and> c # u \<in> lang r \<and> v \<in> lang s"
    then obtain u v where "w = u @ v" "c # u \<in> lang r" "v \<in> lang s" by blast
    then have "c # w = (c # u) @ v \<and> c # u \<in> lang r \<and> v \<in> lang s" by simp
    then show ?thesis unfolding lang.simps by blast
  qed
qed

lemma deriv_lang: "w \<in> lang (deriv c r) \<longleftrightarrow> c # w \<in> lang r"
proof (induction r arbitrary: w)
  case Zero
  show ?case by simp
next
  case Eps
  show ?case by simp
next
  case (Sym p)
  show ?case by simp
next
  case (Seq r s)
  have "w \<in> lang (deriv c (Seq r s)) \<longleftrightarrow>
          ([] \<in> lang r \<and> w \<in> lang (deriv c s)) \<or> (\<exists>u v. w = u @ v \<and> u \<in> lang (deriv c r) \<and> v \<in> lang s)"
    by (auto simp: nullable_lang)
  then show ?case
    by (simp only: Seq.IH lang_Seq_cons)
next
  case (Alt r s)
  then show ?case by simp
next
  case (Star r)
  have "w \<in> lang (deriv c (Star r)) \<longleftrightarrow> (\<exists>u v. w = u @ v \<and> u \<in> lang (deriv c r) \<and> v \<in> star (lang r))"
    by auto
  then show ?case
    by (simp only: Star.IH star_cons lang.simps)
qed

lemma matches_lang: "matches r w \<longleftrightarrow> w \<in> lang r"
  by (induction w arbitrary: r) (simp_all add: nullable_lang deriv_lang)

subsection \<open>Languages of the building blocks\<close>

lemma star_Sym: "w \<in> star {[c] | c. p c} \<longleftrightarrow> (\<forall>c\<in>set w. p c)"
proof
  assume "w \<in> star {[c] | c. p c}"
  then show "\<forall>c\<in>set w. p c"
    by (induction rule: star.induct) auto
next
  assume "\<forall>c\<in>set w. p c"
  then show "w \<in> star {[c] | c. p c}"
  proof (induction w)
    case Nil
    show ?case by (rule star.star_nil)
  next
    case (Cons a w)
    then have "[a] \<in> {[c] | c. p c}" and "w \<in> star {[c] | c. p c}" by simp_all
    then have "[a] @ w \<in> star {[c] | c. p c}" by (rule star.star_app)
    then show ?case by simp
  qed
qed

lemma lang_Plus_Sym: "w \<in> lang (Plus (Sym p)) \<longleftrightarrow> w \<noteq> [] \<and> (\<forall>c\<in>set w. p c)"
proof -
  have "w \<in> lang (Plus (Sym p)) \<longleftrightarrow> (\<exists>u v. w = u @ v \<and> (\<exists>c. u = [c] \<and> p c) \<and> (\<forall>x\<in>set v. p x))"
    by (simp add: Plus_def star_Sym)
  also have "\<dots> \<longleftrightarrow> (\<exists>c v. w = c # v \<and> p c \<and> (\<forall>x\<in>set v. p x))"
    by (metis append_Cons append_Nil)
  also have "\<dots> \<longleftrightarrow> w \<noteq> [] \<and> (\<forall>c\<in>set w. p c)"
    by (cases w) auto
  finally show ?thesis .
qed

lemma lang_Opt: "w \<in> lang (Opt r) \<longleftrightarrow> w = [] \<or> w \<in> lang r"
  by (auto simp: Opt_def)

lemma lang_Chr: "w \<in> lang (Chr a) \<longleftrightarrow> w = [a]"
  by (auto simp: Chr_def)

lemma lang_SeqE:
  assumes "w \<in> lang (Seq r s)"
  obtains u v where "w = u @ v" "u \<in> lang r" "v \<in> lang s"
  using assms by auto

subsection \<open>The separator match\<close>

text \<open>
  \<open>matchSep\<close> finds a match exactly when some prefix of the string is in the language of
  the separator, and the match it takes is the longest such prefix.
\<close>

lemma lang_Star_Chr: "w \<in> lang (Star (Chr a)) \<longleftrightarrow> (\<forall>c\<in>set w. c = a)"
  using star_Sym [of w "\<lambda>c. c = a"] by (simp add: Chr_def)

lemma lang_Plus_Chr: "w \<in> lang (Plus (Chr a)) \<longleftrightarrow> w \<noteq> [] \<and> (\<forall>c\<in>set w. c = a)"
  by (simp add: Chr_def lang_Plus_Sym)

lemma lang_SeqI: "u \<in> lang r \<Longrightarrow> v \<in> lang s \<Longrightarrow> u @ v \<in> lang (Seq r s)"
  by auto

lemma lang_separator:
  "m \<in> lang separator \<longleftrightarrow>
     (\<exists>a h b. m = a @ h @ b \<and> (\<forall>c\<in>set a. c = 0x20) \<and> (\<forall>c\<in>set h. c = 0x2D)
        \<and> 3 \<le> length h \<and> (\<forall>c\<in>set b. c = 0x20))"
proof
  assume "m \<in> lang separator"
  then obtain a t1 where m: "m = a @ t1" and a: "a \<in> lang (Star (Chr 0x20))"
    and t1: "t1 \<in> lang (Seq (Chr 0x2D) (Seq (Chr 0x2D) (Seq (Plus (Chr 0x2D)) (Star (Chr 0x20)))))"
    unfolding separator_def by (rule lang_SeqE)
  from t1 obtain x t2 where 1: "t1 = x @ t2" and x: "x \<in> lang (Chr 0x2D)"
    and t2: "t2 \<in> lang (Seq (Chr 0x2D) (Seq (Plus (Chr 0x2D)) (Star (Chr 0x20))))"
    by (rule lang_SeqE)
  from t2 obtain y t3 where 2: "t2 = y @ t3" and y: "y \<in> lang (Chr 0x2D)"
    and t3: "t3 \<in> lang (Seq (Plus (Chr 0x2D)) (Star (Chr 0x20)))"
    by (rule lang_SeqE)
  from t3 obtain z b where 3: "t3 = z @ b" and z: "z \<in> lang (Plus (Chr 0x2D))"
    and b: "b \<in> lang (Star (Chr 0x20))"
    by (rule lang_SeqE)
  from x y have xy: "x = [0x2D]" "y = [0x2D]" by (simp_all only: lang_Chr)
  from z have z': "z \<noteq> []" "\<forall>c\<in>set z. c = 0x2D"
    using lang_Plus_Chr [of z] by blast+
  let ?h = "0x2D # 0x2D # z"
  from m 1 2 3 xy have "m = a @ ?h @ b" by simp
  moreover from a have "\<forall>c\<in>set a. c = 0x20"
    using lang_Star_Chr [of a] by blast
  moreover from z' have "\<forall>c\<in>set ?h. c = 0x2D" by simp
  moreover from z' have "3 \<le> length ?h" by (cases z) simp_all
  moreover from b have "\<forall>c\<in>set b. c = 0x20"
    using lang_Star_Chr [of b] by blast
  ultimately show "\<exists>a h b. m = a @ h @ b \<and> (\<forall>c\<in>set a. c = 0x20) \<and> (\<forall>c\<in>set h. c = 0x2D)
        \<and> 3 \<le> length h \<and> (\<forall>c\<in>set b. c = 0x20)"
    by blast
next
  assume "\<exists>a h b. m = a @ h @ b \<and> (\<forall>c\<in>set a. c = 0x20) \<and> (\<forall>c\<in>set h. c = 0x2D)
        \<and> 3 \<le> length h \<and> (\<forall>c\<in>set b. c = 0x20)"
  then obtain a h b where m: "m = a @ h @ b" and a: "\<forall>c\<in>set a. c = 0x20"
    and h: "\<forall>c\<in>set h. c = 0x2D" "3 \<le> length h" and b: "\<forall>c\<in>set b. c = 0x20"
    by blast
  from h(2) obtain x h1 where 1: "h = x # h1" by (cases h) auto
  with h(2) obtain y z where 2: "h1 = y # z" by (cases h1) auto
  with 1 h(2) have z_ne: "z \<noteq> []" by auto
  from 1 2 h(1) have xy: "x = 0x2D" "y = 0x2D" and z_all: "\<forall>c\<in>set z. c = 0x2D" by simp_all
  have "z \<in> lang (Plus (Chr 0x2D))"
    using z_ne z_all lang_Plus_Chr [of z] by blast
  moreover have "b \<in> lang (Star (Chr 0x20))"
    using b lang_Star_Chr [of b] by blast
  ultimately have "z @ b \<in> lang (Seq (Plus (Chr 0x2D)) (Star (Chr 0x20)))"
    by (rule lang_SeqI)
  moreover have c: "[0x2D] \<in> lang (Chr 0x2D)" by (simp only: lang_Chr)
  ultimately have "[0x2D] @ z @ b \<in> lang (Seq (Chr 0x2D) (Seq (Plus (Chr 0x2D)) (Star (Chr 0x20))))"
    by (rule lang_SeqI [rotated])
  with c have "[0x2D] @ [0x2D] @ z @ b
      \<in> lang (Seq (Chr 0x2D) (Seq (Chr 0x2D) (Seq (Plus (Chr 0x2D)) (Star (Chr 0x20)))))"
    by (rule lang_SeqI)
  moreover have "a \<in> lang (Star (Chr 0x20))"
    using a lang_Star_Chr [of a] by blast
  ultimately have "a @ [0x2D] @ [0x2D] @ z @ b \<in> lang separator"
    unfolding separator_def by (rule lang_SeqI [rotated])
  with m 1 2 xy show "m \<in> lang separator" by simp
qed

lemma matchSep_sound:
  assumes "matchSep s = Some rest"
  shows "\<exists>m. s = m @ rest \<and> m \<in> lang separator"
proof -
  let ?a = "takeWhile (\<lambda>c. c = 0x20) s"
  let ?s1 = "dropWhile (\<lambda>c. c = 0x20) s"
  let ?h = "takeWhile (\<lambda>c. c = 0x2D) ?s1"
  let ?s2 = "dropWhile (\<lambda>c. c = 0x2D) ?s1"
  let ?b = "takeWhile (\<lambda>c. c = 0x20) ?s2"
  from assms have three: "3 \<le> length ?h" and rest: "rest = dropWhile (\<lambda>c. c = 0x20) ?s2"
    by (auto simp: matchSep_def Let_def split: if_splits)
  have "s = ?a @ ?s1" by simp
  also have "?s1 = ?h @ ?s2" by simp
  also have "?s2 = ?b @ rest" unfolding rest by simp
  finally have "s = (?a @ ?h @ ?b) @ rest" by simp
  moreover have "?a @ ?h @ ?b \<in> lang separator"
    unfolding lang_separator using three
    by (intro exI [of _ ?a] exI [of _ ?h] exI [of _ ?b]) (auto dest: set_takeWhileD)
  ultimately show ?thesis by blast
qed

lemma matchSep_longest:
  assumes "s = m @ r" "m \<in> lang separator"
  shows "\<exists>rest. matchSep s = Some rest \<and> length rest \<le> length r"
proof -
  from assms(2) obtain a h b where m: "m = a @ h @ b" and a: "\<forall>c\<in>set a. c = 0x20"
    and h: "\<forall>c\<in>set h. c = 0x2D" "3 \<le> length h" and b: "\<forall>c\<in>set b. c = 0x20"
    unfolding lang_separator by blast
  from h obtain h' where h': "h = 0x2D # h'" by (cases h) auto
  have s1: "dropWhile (\<lambda>c. c = 0x20) s = h @ b @ r"
    using a assms(1) m h' by (simp add: dropWhile_append2)
  have tw: "takeWhile (\<lambda>c. c = 0x2D) (h @ b @ r) = h @ takeWhile (\<lambda>c. c = 0x2D) (b @ r)"
    using h(1) by (simp add: takeWhile_append2)
  have dw: "dropWhile (\<lambda>c. c = 0x2D) (h @ b @ r) = dropWhile (\<lambda>c. c = 0x2D) (b @ r)"
    using h(1) by (simp add: dropWhile_append2)
  have three: "3 \<le> length (takeWhile (\<lambda>c. c = 0x2D) (h @ b @ r))"
    using h(2) tw by simp
  have len: "length (dropWhile (\<lambda>c. c = 0x20) (dropWhile (\<lambda>c. c = 0x2D) (b @ r))) \<le> length r"
  proof (cases b)
    case Nil
    have "length (dropWhile (\<lambda>c. c = 0x20) (dropWhile (\<lambda>c. c = 0x2D) r))
            \<le> length (dropWhile (\<lambda>c. c = 0x2D) r)"
      by (rule length_dropWhile_le)
    also have "\<dots> \<le> length r" by (rule length_dropWhile_le)
    finally show ?thesis using Nil by simp
  next
    case (Cons x b')
    with b have "x = 0x20" by simp
    with Cons have "dropWhile (\<lambda>c. c = 0x2D) (b @ r) = b @ r" by simp
    moreover have "dropWhile (\<lambda>c. c = 0x20) (b @ r) = dropWhile (\<lambda>c. c = 0x20) r"
      using b by (simp add: dropWhile_append2)
    ultimately show ?thesis by (simp add: length_dropWhile_le)
  qed
  show ?thesis
    using three len by (simp add: matchSep_def Let_def s1 dw)
qed

subsection \<open>A symbol line whose value does not start with 0\<close>

text \<open>
  A line of optional white space, a name, one or more spaces and then a code unit other
  than \<^verbatim>\<open>0\<close> does not match the symbol-definition grammar, whatever stands behind.
\<close>

lemma upper_not_space: "isUpper c \<Longrightarrow> \<not> isSpace c"
  by (auto simp: isUpper_def isSpace_def word_le_def)

lemma upper_not_hash: "isUpper c \<Longrightarrow> c \<noteq> 0x23"
  by (auto simp: isUpper_def)

lemma space_not_upper: "\<not> isUpper 0x20"
  by (simp add: isUpper_def)

lemma hash_not_space: "\<not> isSpace 0x23"
  by (simp add: isSpace_def)

lemma blank_is_space: "isSpace 0x20"
  by (simp add: isSpace_def)

lemma upper_run_unique:
  assumes "\<forall>c\<in>set n. isUpper c" "\<forall>c\<in>set m. isUpper c"
    and "n @ 0x20 # xs = m @ 0x20 # ys"
  shows "n = m \<and> xs = ys"
proof -
  have "takeWhile isUpper (n @ 0x20 # xs) = n"
    using assms(1) by (simp add: space_not_upper)
  moreover have "takeWhile isUpper (m @ 0x20 # ys) = m"
    using assms(2) by (simp add: space_not_upper)
  ultimately have "n = m" using assms(3) by simp
  with assms(3) show ?thesis by simp
qed

lemma blank_run_unique:
  assumes "\<forall>c\<in>set a. c = 0x20" "\<forall>c\<in>set b. c = 0x20"
    and "x \<noteq> 0x20" "y \<noteq> 0x20"
    and "a @ x # xs = b @ y # ys"
  shows "a = b \<and> x = y"
proof -
  have "takeWhile (\<lambda>c. c = 0x20) (a @ x # xs) = a"
    using assms(1,3) by simp
  moreover have "takeWhile (\<lambda>c. c = 0x20) (b @ y # ys) = b"
    using assms(2,4) by simp
  ultimately have "a = b" using assms(5) by simp
  with assms(5) show ?thesis by simp
qed

lemma skip_indent:
  assumes "\<forall>c\<in>set ws. isSpace c" "n \<noteq> []" "\<forall>c\<in>set n. isUpper c"
  shows "dropWhile isSpace (ws @ n @ xs) = n @ xs"
proof -
  from assms(2) obtain c n' where n: "n = c # n'" by (cases n) auto
  with assms(3) have "\<not> isSpace c" by (simp add: upper_not_space)
  with n have "dropWhile isSpace (n @ xs) = n @ xs" by simp
  with assms(1) show ?thesis by (simp add: dropWhile_append2)
qed

lemma commentTail_first:
  assumes "w \<in> lang commentTail"
  shows "dropWhile isSpace w = [] \<or> hd (dropWhile isSpace w) = 0x23"
proof -
  from assms obtain u v where w: "w = u @ v" and u: "u \<in> lang (Star (Sym isSpace))"
    and v: "v \<in> lang (Opt (Seq (Chr 0x23) (Star (Sym isDot))))"
    unfolding commentTail_def by (rule lang_SeqE)
  from u have "\<forall>c\<in>set u. isSpace c" by (simp add: star_Sym)
  with w have dw: "dropWhile isSpace w = dropWhile isSpace v"
    by (simp add: dropWhile_append2)
  show ?thesis
  proof (cases "v = []")
    case True
    with dw show ?thesis by simp
  next
    case False
    with v have "v \<in> lang (Seq (Chr 0x23) (Star (Sym isDot)))" by (simp add: lang_Opt)
    then obtain a b where "v = a @ b" "a \<in> lang (Chr 0x23)" by (rule lang_SeqE)
    then have "v = 0x23 # b" by (simp add: lang_Chr)
    with dw show ?thesis by (simp add: hash_not_space)
  qed
qed

lemma symdef_out_of_range:
  assumes ws: "\<forall>c\<in>set ws. isSpace c"
    and name: "name \<noteq> []" "\<forall>c\<in>set name. isUpper c"
    and sps: "sps \<noteq> []" "\<forall>c\<in>set sps. c = 0x20"
    and h1: "h1 \<noteq> 0x30" "h1 \<noteq> 0x20"
  shows "\<not> matches symdefLine (ws @ name @ sps @ h1 # rest)"
proof
  let ?l = "ws @ name @ sps @ h1 # rest"
  assume "matches symdefLine ?l"
  then have "?l \<in> lang symdefLine" by (simp only: matches_lang)
  then obtain u v where l: "?l = u @ v"
    and u: "u \<in> lang (Opt (Seq (Star (Sym isSpace))
              (Seq (Plus (Sym isUpper))
              (Seq (Plus (Chr 0x20))
              (Seq (Chr 0x30)
              (Seq (Sym isHex)
                   (Star (Sym isSpace))))))))"
    and v: "v \<in> lang commentTail"
    unfolding symdefLine_def by (rule lang_SeqE)
  have dl: "dropWhile isSpace ?l = name @ sps @ h1 # rest"
    using ws name by (rule skip_indent)
  from name have up: "isUpper (hd name)" by simp
  show False
  proof (cases "u = []")
    case True
    with l have "v = ?l" by simp
    with v have "dropWhile isSpace ?l = [] \<or> hd (dropWhile isSpace ?l) = 0x23"
      using commentTail_first [of v] by simp
    with dl name(1) have "hd name = 0x23" by simp
    with up show False
      using upper_not_hash by blast
  next
    case False
    with u have "u \<in> lang (Seq (Star (Sym isSpace))
              (Seq (Plus (Sym isUpper))
              (Seq (Plus (Chr 0x20))
              (Seq (Chr 0x30)
              (Seq (Sym isHex)
                   (Star (Sym isSpace)))))))"
      by (simp only: lang_Opt) simp
    then obtain w1 t1 where u1: "u = w1 @ t1" and w1: "w1 \<in> lang (Star (Sym isSpace))"
      and t1: "t1 \<in> lang (Seq (Plus (Sym isUpper)) (Seq (Plus (Chr 0x20))
              (Seq (Chr 0x30) (Seq (Sym isHex) (Star (Sym isSpace))))))"
      by (rule lang_SeqE)
    from t1 obtain n t2 where u2: "t1 = n @ t2" and n: "n \<in> lang (Plus (Sym isUpper))"
      and t2: "t2 \<in> lang (Seq (Plus (Chr 0x20)) (Seq (Chr 0x30) (Seq (Sym isHex) (Star (Sym isSpace)))))"
      by (rule lang_SeqE)
    from t2 obtain sp t3 where u3: "t2 = sp @ t3" and sp: "sp \<in> lang (Plus (Chr 0x20))"
      and t3: "t3 \<in> lang (Seq (Chr 0x30) (Seq (Sym isHex) (Star (Sym isSpace))))"
      by (rule lang_SeqE)
    from t3 obtain z t4 where u4: "t3 = z @ t4" and z: "z \<in> lang (Chr 0x30)"
      by (rule lang_SeqE)
    from z have z0: "z = [0x30]" by (simp only: lang_Chr)
    from w1 have w1_sp: "\<forall>c\<in>set w1. isSpace c" by (simp add: star_Sym)
    from n have n_ne: "n \<noteq> []" and n_up: "\<forall>c\<in>set n. isUpper c"
      using lang_Plus_Sym [of n isUpper] by blast+
    from sp have sp_ne: "sp \<noteq> []" and sp_all: "\<forall>c\<in>set sp. c = 0x20"
      using lang_Plus_Chr [of sp "0x20"] by blast+
    from l u1 u2 u3 u4 z0 have "?l = w1 @ n @ (sp @ 0x30 # t4 @ v)" by simp
    then have "dropWhile isSpace ?l = dropWhile isSpace (w1 @ n @ (sp @ 0x30 # t4 @ v))"
      by (rule arg_cong)
    also have "\<dots> = n @ (sp @ 0x30 # t4 @ v)"
      using w1_sp n_ne n_up by (rule skip_indent)
    finally have eq0: "name @ sps @ h1 # rest = n @ sp @ 0x30 # t4 @ v"
      using dl by simp
    from sps obtain sps' where sps': "sps = 0x20 # sps'" "\<forall>c\<in>set sps'. c = 0x20"
      by (cases sps) auto
    from sp_ne sp_all obtain sp' where sp': "sp = 0x20 # sp'" "\<forall>c\<in>set sp'. c = 0x20"
      by (cases sp) auto
    from eq0 sps' sp'
    have eq: "name @ 0x20 # (sps' @ h1 # rest) = n @ 0x20 # (sp' @ 0x30 # t4 @ v)" by simp
    from upper_run_unique [OF name(2) n_up eq]
    have eq2: "sps' @ h1 # rest = sp' @ 0x30 # t4 @ v" by simp
    have "(0x30 :: jschar) \<noteq> 0x20" by simp
    from blank_run_unique [OF sps'(2) sp'(2) h1(2) this eq2]
    have "h1 = 0x30" by simp
    with h1(1) show False by simp
  qed
qed

section \<open>The validator and the entry point\<close>

lemma foldl_conj: "foldl (\<lambda>a b. a \<and> b) a bs \<longleftrightarrow> a \<and> (\<forall>b\<in>set bs. b)"
  by (induction bs arbitrary: a) auto

lemma allLines_iff: "allLines r s \<longleftrightarrow> (\<forall>l\<in>set (splitNL s). matches r l)"
  by (simp add: allLines_def foldl_conj)

lemma assemble_not_valid: "\<not> isValid doc \<Longrightarrow> assemble doc = Inr notExecutable"
  by (simp add: assemble_def)

text \<open>
  What \<^verbatim>\<open>assemble\<close> returns for a document it accepts: the third piece of the document
  without its comments, trimmed, and otherwise as it was written.
\<close>

lemma assemble_valid:
  "isValid doc \<Longrightarrow> splitSections (stripComments doc) = Inr s \<Longrightarrow> assemble doc = Inr (code s)"
  by (simp add: assemble_def Let_def substitute_def stripLabels_def)


text \<open>In the state of the loaded module a call gives what \<open>assemble\<close> gives.\<close>

lemma assemble_call_loaded: "fst (assemble_call doc loaded) = assemble doc"
  by (simp add: assemble_call_def assemble_def loaded_def Let_def split: sum.splits)

section \<open>Properties of the comment stripper\<close>

lemma stripComments_no_hash: "0x23 \<notin> set (stripComments s)"
  by (induction s rule: stripComments.induct) auto

lemma stripComments_id: "0x23 \<notin> set s \<Longrightarrow> stripComments s = s"
  by (induction s) auto

lemma assemble_returns_without_comments:
  assumes "0x23 \<notin> set doc"
  shows "\<exists>out. assemble doc = Inr out"
proof (cases "isValid doc")
  case False
  then show ?thesis by (simp add: assemble_not_valid)
next
  case True
  then obtain s0 s1 s2 where "splitSep doc = [s0, s1, s2]"
    by (auto simp: isValid_def split: list.splits)
  then have "splitSections doc = Inr \<lparr>desc = trim s0, syms = trim s1, code = trim s2\<rparr>"
    by (simp add: splitSections_def index_def trimOf_def)
  moreover from assms have "stripComments doc = doc"
    by (rule stripComments_id)
  ultimately show ?thesis
    using True by (simp add: assemble_valid)
qed

section \<open>The claims\<close>

text \<open>
  Claim C1. For every valid document the string \<^verbatim>\<open>assemble\<close> returns is the final byte
  sequence: two-digit upper-case hexadecimal bytes separated by single spaces, one for
  each opcode and operand slot. The code does not do this. The document below is valid;
  its code section has the lines \<^verbatim>\<open>ator A\<close> and \<^verbatim>\<open>halt\<close>, three bytes in all, and
  \<^verbatim>\<open>assemble\<close> returns these two lines as they were written, which is no byte sequence.
\<close>

theorem assemble_returns_code_text:
  "isValid (js ''Add'' @ [LF] @ js ''---'' @ [LF] @ js ''A 00'' @ [LF] @ js ''---'' @ [LF]
            @ js ''ator A'' @ [LF] @ js ''halt'')
   \<and> assemble (js ''Add'' @ [LF] @ js ''---'' @ [LF] @ js ''A 00'' @ [LF] @ js ''---'' @ [LF]
            @ js ''ator A'' @ [LF] @ js ''halt'')
       = Inr (js ''ator A'' @ [LF] @ js ''halt'')
   \<and> \<not> isByteSequence (js ''ator A'' @ [LF] @ js ''halt'')"
  by (simp add: eval_defs isUpperHexDigit_def)

text \<open>
  Claim C2. For every document on which assembly fails, \<^verbatim>\<open>assemble\<close> returns a structured
  error value, never a free-text placeholder string. The code returns a placeholder: the
  document \<^verbatim>\<open>halt\<close>, which has no separator, is refused by the validator and \<^verbatim>\<open>assemble\<close>
  returns the text \<^verbatim>\<open>I'm not executable\<close> as an ordinary string.
\<close>

theorem assemble_placeholder_counterexample:
  "\<not> isValid (js ''halt'') \<and> assemble (js ''halt'') = Inr (js ''I'm not executable'')"
  by (simp add: eval_defs)

text \<open>
  Claim C2, as the code has it. For every document the validator refuses, \<^verbatim>\<open>assemble\<close>
  returns the fixed text \<^verbatim>\<open>I'm not executable\<close>, as a string.
\<close>

theorem assemble_invalid:
  "\<not> isValid doc \<Longrightarrow> assemble doc = Inr (js ''I'm not executable'')"
  using assemble_not_valid [of doc] by (simp add: notExecutable_def)

theorem assemble_invalid_witness:
  "\<not> isValid (js ''A 00 --- halt'')
   \<and> assemble (js ''A 00 --- halt'') = Inr (js ''I'm not executable'')"
proof -
  have h: "\<not> isValid (js ''A 00 --- halt'')"
    by (simp add: eval_defs)
  from h assemble_invalid [OF h] show ?thesis
    by simp
qed

text \<open>
  Claim C3. For every valid document a label used before the line that defines it resolves
  to the same one-byte address as a backward reference would. The code resolves no label:
  in the valid document below \<^verbatim>\<open>setpc END\<close> refers forward to \<^verbatim>\<open>END\<close>, the label
  table has no entry for \<^verbatim>\<open>END\<close>, and the output still holds the name where its
  address belongs.
\<close>

theorem forward_label_unresolved:
  "isValid (js ''Jump'' @ [LF] @ js ''---'' @ [LF] @ js ''---'' @ [LF]
            @ js ''setpc END'' @ [LF] @ js ''END: halt'')
   \<and> buildLabelMap (js ''setpc END'' @ [LF] @ js ''END: halt'') (js ''END'') = None
   \<and> assemble (js ''Jump'' @ [LF] @ js ''---'' @ [LF] @ js ''---'' @ [LF]
            @ js ''setpc END'' @ [LF] @ js ''END: halt'')
       = Inr (js ''setpc END'' @ [LF] @ js ''END: halt'')"
  by (simp add: eval_defs)

text \<open>
  Claim C4. A document is split only at lines that consist of three or more hyphens with
  optional white space around them, a document without exactly two such lines is rejected,
  and hyphens inside a line of text are no separator. The code splits at every run of
  three or more hyphens. The first document below has exactly two separator lines and a
  description with hyphens in its text: it is cut into four pieces and refused. The second
  is a single line of text without any separator line: it is accepted and cut into the
  sections \<^verbatim>\<open>x\<close>, the empty string and \<^verbatim>\<open>halt\<close>.
\<close>

theorem split_inside_a_line:
  "separatorLines (js ''Exercise --- two'' @ [LF] @ js ''---'' @ [LF] @ js ''N 0f'' @ [LF]
                   @ js ''---'' @ [LF] @ js ''halt'') = 2
   \<and> length (splitSep (js ''Exercise --- two'' @ [LF] @ js ''---'' @ [LF] @ js ''N 0f'' @ [LF]
                   @ js ''---'' @ [LF] @ js ''halt'')) = 4
   \<and> \<not> isValid (js ''Exercise --- two'' @ [LF] @ js ''---'' @ [LF] @ js ''N 0f'' @ [LF]
                   @ js ''---'' @ [LF] @ js ''halt'')
   \<and> separatorLines (js ''x --- --- halt'') = 0
   \<and> isValid (js ''x --- --- halt'')
   \<and> splitSections (js ''x --- --- halt'')
       = Inr \<lparr>desc = js ''x'', syms = [], code = js ''halt''\<rparr>"
  by (simp add: eval_defs separatorLine_def separatorLines_def)

text \<open>
  Claim C5. The validator returns pass or fail together with, on failure, the first
  offending line number and its section, never a bare boolean. The code returns a bare
  boolean: the first document below fails in its second section (\<^verbatim>\<open>foo\<close> is no symbol
  definition), the second passes the second section and fails in its third (\<^verbatim>\<open>BAD\<close> is
  no code line), and the validator returns the same \<open>False\<close> for both.
\<close>

theorem isValid_bare_boolean_counterexample:
  "splitSep (js ''---'' @ [LF] @ js ''foo'' @ [LF] @ js ''---'' @ [LF] @ js ''halt'')
     = [[], LF # js ''foo'' @ [LF], LF # js ''halt'']
   \<and> \<not> allLines symdefLine (LF # js ''foo'' @ [LF])
   \<and> splitSep (js ''---'' @ [LF] @ js ''A 00'' @ [LF] @ js ''---'' @ [LF] @ js ''halt'' @ [LF]
               @ js ''BAD'')
     = [[], LF # js ''A 00'' @ [LF], LF # js ''halt'' @ [LF] @ js ''BAD'']
   \<and> allLines symdefLine (LF # js ''A 00'' @ [LF])
   \<and> \<not> allLines codeLine (LF # js ''halt'' @ [LF] @ js ''BAD'')
   \<and> isValid (js ''---'' @ [LF] @ js ''foo'' @ [LF] @ js ''---'' @ [LF] @ js ''halt'') = False
   \<and> isValid (js ''---'' @ [LF] @ js ''A 00'' @ [LF] @ js ''---'' @ [LF] @ js ''halt'' @ [LF]
               @ js ''BAD'') = False"
  by (simp add: eval_defs)

text \<open>
  Claim C5, as the code has it. For every raw document the validator returns a boolean and
  nothing else: true exactly when the document splits into three pieces, every line of the
  second matches the symbol-definition grammar and every line of the third matches the
  code-line grammar.
\<close>

theorem isValid_iff:
  "isValid doc \<longleftrightarrow>
     (\<exists>s0 s1 s2. splitSep doc = [s0, s1, s2]
        \<and> (\<forall>l\<in>set (splitNL s1). matches symdefLine l)
        \<and> (\<forall>l\<in>set (splitNL s2). matches codeLine l))"
  by (auto simp: isValid_def allLines_iff split: list.splits)

theorem isValid_iff_witness:
  "splitSep (js ''--- ---halt'') = [[], [], js ''halt'']
   \<and> splitNL [] = [[]] \<and> matches symdefLine []
   \<and> splitNL (js ''halt'') = [js ''halt''] \<and> matches codeLine (js ''halt'')
   \<and> isValid (js ''--- ---halt'')"
proof -
  have a: "splitSep (js ''--- ---halt'') = [[], [], js ''halt'']"
    by (simp add: eval_defs)
  have b: "splitNL [] = [[]]" "splitNL (js ''halt'') = [js ''halt'']"
    by (simp_all add: eval_defs)
  have c: "matches symdefLine []" "matches codeLine (js ''halt'')"
    by (simp_all add: eval_defs)
  from a b c have "isValid (js ''--- ---halt'')"
    by (simp add: isValid_iff [of "js ''--- ---halt''"])
  with a b c show ?thesis
    by simp
qed

text \<open>
  Claim C6. For every document with a symbol-definitions line whose byte value lies outside
  00 to 0f, such as \<^verbatim>\<open>FOO 10\<close>, assembly fails with the error InvalidSlotValue carrying
  the name and the value. The code has no such error: for the document below, whose
  symbol-definitions section is the line \<^verbatim>\<open>FOO 10\<close>, \<^verbatim>\<open>assemble\<close> returns the text
  \<^verbatim>\<open>I'm not executable\<close>, which names neither \<^verbatim>\<open>FOO\<close> nor \<^verbatim>\<open>10\<close>.
\<close>

theorem invalid_slot_value_counterexample:
  "assemble (js ''Slots'' @ [LF] @ js ''---'' @ [LF] @ js ''FOO 10'' @ [LF] @ js ''---'' @ [LF]
             @ js ''halt'')
     = Inr (js ''I'm not executable'')"
  by (simp add: eval_defs)

text \<open>
  Claim C6, as the code has it. For every document whose symbol-definitions section (the
  second piece of the split) has a line made of optional white space, a symbol name, one
  or more spaces and a value whose first code unit is not \<^verbatim>\<open>0\<close> (every two-digit value
  above 0f, as in \<^verbatim>\<open>FOO 10\<close>), whatever follows the first code unit of the value (further
  digits, white space, a comment), the validator refuses the document and \<^verbatim>\<open>assemble\<close>
  returns the text \<^verbatim>\<open>I'm not executable\<close>. Here \<open>h1\<close> is the code unit right behind the
  spaces, so it is no space itself.
\<close>

theorem symdef_out_of_range_rejected:
  assumes "index (splitSep doc) 1 = Some s1"
    and "ws @ name @ sps @ h1 # rest \<in> set (splitNL s1)"
    and "\<forall>c\<in>set ws. isSpace c"
    and "name \<noteq> []" and "\<forall>c\<in>set name. isUpper c"
    and "sps \<noteq> []" and "\<forall>c\<in>set sps. c = 0x20"
    and "h1 \<noteq> 0x30" and "h1 \<noteq> 0x20"
  shows "\<not> isValid doc \<and> assemble doc = Inr (js ''I'm not executable'')"
proof -
  have no: "\<not> matches symdefLine (ws @ name @ sps @ h1 # rest)"
    using assms(3-9) by (rule symdef_out_of_range)
  have "\<not> isValid doc"
  proof
    assume "isValid doc"
    then obtain s0 s1' s2 where sp: "splitSep doc = [s0, s1', s2]" and al: "allLines symdefLine s1'"
      by (auto simp: isValid_def split: list.splits)
    from sp assms(1) have "s1' = s1"
      by (simp add: index_def)
    with al assms(2) have "matches symdefLine (ws @ name @ sps @ h1 # rest)"
      by (simp add: allLines_iff)
    with no show False ..
  qed
  then show ?thesis
    using assemble_not_valid [of doc] by (simp add: notExecutable_def)
qed

theorem symdef_out_of_range_rejected_witness:
  "index (splitSep (js ''Slots'' @ [LF] @ js ''---'' @ [LF] @ js ''  FOO  10 # c'' @ [LF]
                    @ js ''---'' @ [LF] @ js ''halt'')) 1
     = Some (LF # js ''  FOO  10 # c'' @ [LF])
   \<and> js ''  '' @ js ''FOO'' @ js ''  '' @ 0x31 # js ''0 # c''
       \<in> set (splitNL (LF # js ''  FOO  10 # c'' @ [LF]))
   \<and> list_all isSpace (js ''  '')
   \<and> js ''FOO'' \<noteq> [] \<and> list_all isUpper (js ''FOO'')
   \<and> js ''  '' \<noteq> [] \<and> list_all (\<lambda>c. c = 0x20) (js ''  '')
   \<and> (0x31 :: jschar) \<noteq> 0x30 \<and> (0x31 :: jschar) \<noteq> 0x20
   \<and> \<not> isValid (js ''Slots'' @ [LF] @ js ''---'' @ [LF] @ js ''  FOO  10 # c'' @ [LF]
                 @ js ''---'' @ [LF] @ js ''halt'')
   \<and> assemble (js ''Slots'' @ [LF] @ js ''---'' @ [LF] @ js ''  FOO  10 # c'' @ [LF]
                 @ js ''---'' @ [LF] @ js ''halt'')
       = Inr (js ''I'm not executable'')"
proof -
  let ?doc = "js ''Slots'' @ [LF] @ js ''---'' @ [LF] @ js ''  FOO  10 # c'' @ [LF]
              @ js ''---'' @ [LF] @ js ''halt''"
  have a: "index (splitSep ?doc) 1 = Some (LF # js ''  FOO  10 # c'' @ [LF])"
    by (simp add: eval_defs)
  have b: "js ''  '' @ js ''FOO'' @ js ''  '' @ 0x31 # js ''0 # c''
             \<in> set (splitNL (LF # js ''  FOO  10 # c'' @ [LF]))"
    by (simp add: eval_defs)
  have c: "\<forall>c\<in>set (js ''  ''). isSpace c"
    by (simp add: js_def isSpace_def)
  have d: "js ''FOO'' \<noteq> []" "\<forall>c\<in>set (js ''FOO''). isUpper c"
    by (simp_all add: js_def isUpper_def)
  have e: "js ''  '' \<noteq> []" "\<forall>c\<in>set (js ''  ''). c = 0x20"
    by (simp_all add: js_def)
  have f: "(0x31 :: jschar) \<noteq> 0x30" "(0x31 :: jschar) \<noteq> 0x20"
    by simp_all
  note r = symdef_out_of_range_rejected [OF a b c d e f]
  from c d(2) e(2) have g: "list_all isSpace (js ''  '')" "list_all isUpper (js ''FOO'')"
      "list_all (\<lambda>c. c = 0x20) (js ''  '')"
    by (simp_all only: list_all_iff)
  from r a b d(1) e(1) f g show ?thesis
    by blast
qed

text \<open>
  Claim C7. For every valid document no label marker \<^verbatim>\<open>NAME:\<close> appears in the output of
  \<^verbatim>\<open>assemble\<close>. The code removes no marker: for the valid document below the output is
  the code line with its marker \<^verbatim>\<open>END:\<close>.
\<close>

theorem label_marker_in_output:
  "isValid (js ''Stop'' @ [LF] @ js ''---'' @ [LF] @ js ''---'' @ [LF] @ js ''END: halt'')
   \<and> assemble (js ''Stop'' @ [LF] @ js ''---'' @ [LF] @ js ''---'' @ [LF] @ js ''END: halt'')
       = Inr (js ''END: halt'')
   \<and> hasLabelMarker (js ''END: halt'')"
  by (simp add: eval_defs)

text \<open>
  Claim C8. The comment stripper is idempotent: stripping the comments of a document twice
  gives the same string as stripping them once.
\<close>

theorem stripComments_idempotent: "stripComments (stripComments doc) = stripComments doc"
  by (rule stripComments_id) (rule stripComments_no_hash)


text \<open>
  Claim C10. \<^verbatim>\<open>assemble\<close> is total: for every input string it returns a string and never
  throws, because \<^verbatim>\<open>splitSections\<close> runs only after \<^verbatim>\<open>isValid\<close> has found three
  sections. The code throws on the document below. \<^verbatim>\<open>isValid\<close> counts the hyphens behind
  the \<^verbatim>\<open>#\<close> of the first line as a separator and accepts the document;
  \<^verbatim>\<open>splitSections\<close> gets the document without its comments, which has two pieces only, and
  \<^verbatim>\<open>sections[2].trim()\<close> raises a \<^verbatim>\<open>TypeError\<close>.
\<close>

theorem assemble_throws:
  "isValid (js ''Exercise 2 # ---'' @ [LF] @ js ''---'' @ [LF] @ js ''halt'')
   \<and> splitSep (stripComments (js ''Exercise 2 # ---'' @ [LF] @ js ''---'' @ [LF] @ js ''halt''))
       = [js ''Exercise 2 '' @ [LF], LF # js ''halt'']
   \<and> assemble (js ''Exercise 2 # ---'' @ [LF] @ js ''---'' @ [LF] @ js ''halt'') = Inl TypeError"
  by (simp add: eval_defs)

end
